theory Spec2Isabelle
  imports Main "HOL-Library.Sublist"
begin

section \<open>Python values and the operations the agent uses on them\<close>

text \<open>
  The module under verification is \<^verbatim>\<open>streamlit_app.py\<close>; its core is the class
  \<^verbatim>\<open>PropertyFindingAgent\<close> with the methods \<^verbatim>\<open>find_properties\<close> and
  \<^verbatim>\<open>get_location_trends\<close>.

  A Python \<^verbatim>\<open>str\<close> is modelled as a \<^typ>\<open>string\<close> holding the bytes of its UTF-8
  encoding: concatenation and the substring relation of the two agree. The non-ASCII
  literals of the source (the emoji of the templates) are written out byte by byte.
\<close>

text \<open>
  \<^verbatim>\<open>str.lower()\<close> is the interpreter's: a case mapping over all of Unicode, driven by the
  tables of the Unicode database. The agent's methods take it as the parameter
  \<open>lower\<close>, so that what is proved about them holds for the interpreter's function
  whatever its tables are.
\<close>

text \<open>
  The extraction response is whatever the provider client hands back: a JSON-shaped
  Python value. A \<^verbatim>\<open>dict\<close> is an association list in insertion order (keys are JSON
  keys, hence strings); lookups go through \<^const>\<open>map_of\<close>. JSON numbers with a
  fraction (Python floats) are not part of the model.
\<close>

datatype pyval =
    PNone
  | PBool bool
  | PInt int
  | PStr string
  | PList "pyval list"
  | PDict "(string \<times> pyval) list"

text \<open>
  Every \<^verbatim>\<open>raise\<close> is a value. \<open>ProviderError\<close> stands for whatever exception the
  extraction client raises (transport or provider level), with its message.
\<close>

datatype py_error =
    KeyError string
  | TypeError
  | AttributeError
  | ProviderError string

text \<open>Truth value testing: \<^verbatim>\<open>bool(v)\<close>, as used by \<^verbatim>\<open>not response\<close>.\<close>

fun py_truthy :: "pyval \<Rightarrow> bool" where
  "py_truthy PNone = False"
| "py_truthy (PBool b) = b"
| "py_truthy (PInt i) = (i \<noteq> 0)"
| "py_truthy (PStr s) = (s \<noteq> [])"
| "py_truthy (PList l) = (l \<noteq> [])"
| "py_truthy (PDict d) = (d \<noteq> [])"

text \<open>
  \<^verbatim>\<open>obj.get(key, default)\<close>: only a \<^verbatim>\<open>dict\<close> has the method; on any other value of the
  model the attribute lookup raises \<^verbatim>\<open>AttributeError\<close>.
\<close>

fun py_get :: "pyval \<Rightarrow> string \<Rightarrow> pyval \<Rightarrow> py_error + pyval" where
  "py_get (PDict d) k dflt = Inr (case map_of d k of None \<Rightarrow> dflt | Some v \<Rightarrow> v)"
| "py_get v k dflt = Inl AttributeError"

text \<open>
  \<^verbatim>\<open>key in container\<close> for a \<^verbatim>\<open>str\<close> key: membership among the keys of a \<^verbatim>\<open>dict\<close>, among
  the elements of a \<^verbatim>\<open>list\<close>, the substring test on a \<^verbatim>\<open>str\<close>; \<^verbatim>\<open>None\<close>, \<^verbatim>\<open>bool\<close> and
  \<^verbatim>\<open>int\<close> are not iterable and raise \<^verbatim>\<open>TypeError\<close>.
\<close>

fun py_in :: "string \<Rightarrow> pyval \<Rightarrow> py_error + bool" where
  "py_in k (PDict d) = Inr (k \<in> set (map fst d))"
| "py_in k (PList l) = Inr (PStr k \<in> set l)"
| "py_in k (PStr s) = Inr (sublist k s)"
| "py_in k v = Inl TypeError"

text \<open>
  \<^verbatim>\<open>obj[key]\<close> for a \<^verbatim>\<open>str\<close> key: a \<^verbatim>\<open>dict\<close> yields the value or raises \<^verbatim>\<open>KeyError(key)\<close>;
  a \<^verbatim>\<open>list\<close> or \<^verbatim>\<open>str\<close> rejects a \<^verbatim>\<open>str\<close> index and the other values are not
  subscriptable, both with \<^verbatim>\<open>TypeError\<close>.
\<close>

fun py_getitem :: "pyval \<Rightarrow> string \<Rightarrow> py_error + pyval" where
  "py_getitem (PDict d) k = (case map_of d k of None \<Rightarrow> Inl (KeyError k) | Some v \<Rightarrow> Inr v)"
| "py_getitem v k = Inl TypeError"

text \<open>
  Iterating a \<^verbatim>\<open>str\<close> yields its characters as one-character strings; on the UTF-8
  bytes a character is a lead byte with the continuation bytes (\<^verbatim>\<open>10xxxxxx\<close>) after it.
\<close>

definition is_cont :: "char \<Rightarrow> bool" where
  "is_cont c = (let n = (of_char c :: nat) in 128 \<le> n \<and> n < 192)"

function utf8_chars :: "string \<Rightarrow> string list" where
  "utf8_chars [] = []"
| "utf8_chars (c # cs) = (c # takeWhile is_cont cs) # utf8_chars (dropWhile is_cont cs)"
  by pat_completeness auto
termination
  by (relation "measure length") (auto simp: length_dropWhile_le less_Suc_eq_le)

text \<open>
  \<^verbatim>\<open>for x in v\<close>: the elements of a \<^verbatim>\<open>list\<close>, the keys of a \<^verbatim>\<open>dict\<close>, the characters of
  a \<^verbatim>\<open>str\<close>; anything else is not iterable.
\<close>

fun py_iter :: "pyval \<Rightarrow> py_error + pyval list" where
  "py_iter (PList l) = Inr l"
| "py_iter (PDict d) = Inr (map (\<lambda>kv. PStr (fst kv)) d)"
| "py_iter (PStr s) = Inr (map PStr (utf8_chars s))"
| "py_iter v = Inl TypeError"

text \<open>
  A replacement field \<^verbatim>\<open>{v}\<close> of an f-string is \<^verbatim>\<open>format(v, "")\<close>: a \<^verbatim>\<open>str\<close> is inserted as
  it is, any other value through the interpreter's \<^verbatim>\<open>str(v)\<close>, which the model takes
  as the parameter \<open>vstr\<close>.
\<close>

fun py_format :: "(pyval \<Rightarrow> string) \<Rightarrow> pyval \<Rightarrow> string" where
  "py_format vstr (PStr s) = s"
| "py_format vstr v = vstr v"

section \<open>The extraction client\<close>

text \<open>
  The two schema descriptors handed to the provider,
  \<^verbatim>\<open>PropertiesResponse.model_json_schema()\<close> and \<^verbatim>\<open>LocationsResponse.model_json_schema()\<close>.
\<close>

datatype schema_descriptor = PropertiesResponse | LocationsResponse

record extract_params =
  prompt :: string
  schema :: schema_descriptor

text \<open>
  \<^verbatim>\<open>self\<close>: the agent owns the client \<^verbatim>\<open>self.firecrawl\<close>, whose \<^verbatim>\<open>extract(urls, params)\<close>
  is an external call that returns a response or raises.
\<close>

record agent =
  firecrawl_extract :: "string list \<Rightarrow> extract_params \<Rightarrow> py_error + pyval"

section \<open>Literals of the source\<close>

definition nl :: string where
  "nl = [CHR 0x0A]"

definition indent :: string where
  "indent = replicate 16 CHR '' ''"

definition no_data_sentinel :: string where
  "no_data_sentinel =
     [CHR 0xE2, CHR 0x9A, CHR 0xA0, CHR 0xEF, CHR 0xB8, CHR 0x8F]
     @ '' No property data could be extracted. Try with a different city or parameters.''"

definition trend_placeholder :: string where
  "trend_placeholder = ''Sample location trend analysis (mocked for now).''"

definition header_prefix :: string where
  "header_prefix = nl @ ''### '' @ [CHR 0xF0, CHR 0x9F, CHR 0x8F, CHR 0xA0] @ '' ''"

definition location_label :: string where
  "location_label = nl @ ''- '' @ [CHR 0xF0, CHR 0x9F, CHR 0x93, CHR 0x8D] @ '' **Location**: ''"

definition type_label :: string where
  "type_label =
     nl @ ''- '' @ [CHR 0xF0, CHR 0x9F, CHR 0x8F, CHR 0xB7, CHR 0xEF, CHR 0xB8, CHR 0x8F]
     @ '' **Type**: ''"

definition price_label :: string where
  "price_label = nl @ ''- '' @ [CHR 0xF0, CHR 0x9F, CHR 0x92, CHR 0xB0] @ '' **Price**: ''"

definition description_label :: string where
  "description_label =
     nl @ ''- '' @ [CHR 0xF0, CHR 0x9F, CHR 0x93, CHR 0x9D] @ '' **Description**: ''"

definition separator :: string where
  "separator = nl @ nl @ ''---'' @ nl"

section \<open>\<^verbatim>\<open>PropertyFindingAgent.find_properties\<close>\<close>

text \<open>
  The body of the \<^verbatim>\<open>for\<close> loop: the f-string reads the five keys of \<^verbatim>\<open>prop\<close> from left
  to right, so the first failing subscript is the one that raises.
\<close>

definition format_block :: "(pyval \<Rightarrow> string) \<Rightarrow> pyval \<Rightarrow> py_error + string" where
  "format_block vstr prop =
     (case py_getitem prop ''Building_name'' of Inl e \<Rightarrow> Inl e | Inr b \<Rightarrow>
     (case py_getitem prop ''location_address'' of Inl e \<Rightarrow> Inl e | Inr l \<Rightarrow>
     (case py_getitem prop ''Property_type'' of Inl e \<Rightarrow> Inl e | Inr t \<Rightarrow>
     (case py_getitem prop ''Price'' of Inl e \<Rightarrow> Inl e | Inr p \<Rightarrow>
     (case py_getitem prop ''Description'' of Inl e \<Rightarrow> Inl e | Inr d \<Rightarrow>
        Inr (header_prefix @ py_format vstr b
             @ location_label @ py_format vstr l
             @ type_label @ py_format vstr t
             @ price_label @ py_format vstr p
             @ description_label @ py_format vstr d
             @ separator))))))"

text \<open>The loop \<^verbatim>\<open>for prop in properties: formatted += ...\<close>, with its accumulator.\<close>

fun format_loop :: "(pyval \<Rightarrow> string) \<Rightarrow> pyval list \<Rightarrow> string \<Rightarrow> py_error + string" where
  "format_loop vstr [] formatted = Inr formatted"
| "format_loop vstr (prop # props) formatted =
     (case format_block vstr prop of
        Inl e \<Rightarrow> Inl e
      | Inr block \<Rightarrow> format_loop vstr props (formatted @ block))"

text \<open>
  Lines 95 to 110: the guard with its short-circuit \<^verbatim>\<open>or\<close>, the two subscripts, the
  loop.
\<close>

definition interpret_response :: "(pyval \<Rightarrow> string) \<Rightarrow> pyval \<Rightarrow> py_error + string" where
  "interpret_response vstr response =
     (if \<not> py_truthy response then Inr no_data_sentinel
      else
       (case py_get response ''data'' (PDict []) of Inl e \<Rightarrow> Inl e | Inr data \<Rightarrow>
       (case py_in ''properties'' data of Inl e \<Rightarrow> Inl e | Inr present \<Rightarrow>
          if \<not> present then Inr no_data_sentinel
          else
           (case py_getitem response ''data'' of Inl e \<Rightarrow> Inl e | Inr data' \<Rightarrow>
           (case py_getitem data' ''properties'' of Inl e \<Rightarrow> Inl e | Inr properties \<Rightarrow>
           (case py_iter properties of Inl e \<Rightarrow> Inl e | Inr props \<Rightarrow>
              format_loop vstr props []))))))"

text \<open>The list \<^verbatim>\<open>urls\<close> of lines 77 to 81, as a function of \<^verbatim>\<open>formatted_location\<close>.\<close>

definition property_urls :: "string \<Rightarrow> string list" where
  "property_urls formatted_location =
     [''https://www.squareyards.com/sale/property-for-sale-in-'' @ formatted_location @ ''/*'',
      ''https://www.99acres.com/property-in-'' @ formatted_location @ ''-ffid/*'',
      ''https://housing.com/in/buy/'' @ formatted_location @ ''/'' @ formatted_location]"

text \<open>
  The f-string under \<^verbatim>\<open>"prompt"\<close>, lines 86 to 90. \<open>nstr\<close> is the interpreter's rendering
  of \<^verbatim>\<open>max_price\<close> in the replacement field; the number is only ever rendered, so its
  type is left open.
\<close>

definition property_prompt :: "('n \<Rightarrow> string) \<Rightarrow> string \<Rightarrow> string \<Rightarrow> string \<Rightarrow> 'n \<Rightarrow> string" where
  "property_prompt nstr city property_type property_category max_price =
     nl @ indent @ ''Extract property listings for '' @ city
     @ '' where property type is '' @ property_type
     @ '' and category is '' @ property_category @ ''.''
     @ nl @ indent @ ''Only include properties under '' @ nstr max_price @ '' Crores.''
     @ nl @ indent @ ''Each property must include name, address, price, description, and type.''
     @ nl @ indent"

text \<open>The \<^verbatim>\<open>dict\<close> literal handed to \<^verbatim>\<open>extract\<close> as its second argument, lines 85 to 92.\<close>

definition property_params ::
  "('n \<Rightarrow> string) \<Rightarrow> string \<Rightarrow> string \<Rightarrow> string \<Rightarrow> 'n \<Rightarrow> extract_params" where
  "property_params nstr city property_type property_category max_price =
     \<lparr>prompt = property_prompt nstr city property_type property_category max_price,
      schema = PropertiesResponse\<rparr>"

text \<open>The method itself: build the request, call the client, interpret the response.\<close>

definition find_properties ::
  "(string \<Rightarrow> string) \<Rightarrow> ('n \<Rightarrow> string) \<Rightarrow> (pyval \<Rightarrow> string) \<Rightarrow> agent
     \<Rightarrow> string \<Rightarrow> 'n \<Rightarrow> string \<Rightarrow> string \<Rightarrow> py_error + string" where
  "find_properties lower nstr vstr self city max_price property_category property_type =
     (let formatted_location = lower city;
          urls = property_urls formatted_location
      in case firecrawl_extract self urls
                (property_params nstr city property_type property_category max_price)
         of Inl e \<Rightarrow> Inl e
          | Inr response \<Rightarrow> interpret_response vstr response)"

section \<open>\<^verbatim>\<open>PropertyFindingAgent.get_location_trends\<close>\<close>

text \<open>
  The response is bound to \<^verbatim>\<open>raw_response\<close> and never read; only an exception of the
  client changes the outcome.
\<close>

definition trend_urls :: "(string \<Rightarrow> string) \<Rightarrow> string \<Rightarrow> string list" where
  "trend_urls lower city =
     [''https://www.99acres.com/property-rates-and-price-trends-in-'' @ lower city
      @ ''-prffid/*'']"

definition trend_params :: extract_params where
  "trend_params =
     \<lparr>prompt = ''Extract price trends data for ALL major localities in the city.'',
      schema = LocationsResponse\<rparr>"

definition get_location_trends ::
  "(string \<Rightarrow> string) \<Rightarrow> agent \<Rightarrow> string \<Rightarrow> py_error + string" where
  "get_location_trends lower self city =
     (case firecrawl_extract self (trend_urls lower city) trend_params of
        Inl e \<Rightarrow> Inl e
      | Inr raw_response \<Rightarrow> Inr trend_placeholder)"

section \<open>Fixtures for concrete runs\<close>

text \<open>
  On a string of ASCII characters \<^verbatim>\<open>str.lower()\<close> maps \<^verbatim>\<open>A-Z\<close> to \<^verbatim>\<open>a-z\<close> and keeps the
  rest. \<open>ascii_lower\<close> is that function; it stands in for \<open>lower\<close> in the concrete
  runs below, whose cities are all ASCII, and nowhere else.
\<close>

definition ascii_lower_char :: "char \<Rightarrow> char" where
  "ascii_lower_char c =
     (let n = (of_char c :: nat) in if 65 \<le> n \<and> n \<le> 90 then char_of (n + 32) else c)"

definition ascii_lower :: "string \<Rightarrow> string" where
  "ascii_lower s = map ascii_lower_char s"

text \<open>
  Two agents for concrete runs: one whose client answers every request with the same
  response, one whose client raises on every request.
\<close>

definition answering :: "pyval \<Rightarrow> agent" where
  "answering response = \<lparr>firecrawl_extract = (\<lambda>urls params. Inr response)\<rparr>"

definition raising :: "string \<Rightarrow> agent" where
  "raising msg = \<lparr>firecrawl_extract = (\<lambda>urls params. Inl (ProviderError msg))\<rparr>"

text \<open>
  The one record of the end-to-end scenario, with the keys as the formatter reads them,
  and a response envelope around a payload.
\<close>

definition skyline :: pyval where
  "skyline =
     PDict [(''Building_name'', PStr ''Skyline Towers''),
            (''Property_type'', PStr ''Flat''),
            (''location_address'', PStr ''Bandra West''),
            (''Price'', PStr ''2.1 Cr''),
            (''Description'', PStr ''2BHK sea view'')]"

definition envelope :: "pyval \<Rightarrow> pyval" where
  "envelope data =
     PDict [(''success'', PBool True), (''data'', data),
            (''status'', PStr ''completed''), (''expiresAt'', PStr [])]"

text \<open>
  The same record under the field names of the schema instead of their aliases, the
  shape a provider returns when it ignores the aliases.
\<close>

definition unaliased :: pyval where
  "unaliased =
     PDict [(''building_name'', PStr ''Skyline Towers''),
            (''property_type'', PStr ''Flat''),
            (''location_address'', PStr ''Bandra West''),
            (''price'', PStr ''2.1 Cr''),
            (''description'', PStr ''2BHK sea view'')]"

text \<open>A client that raises with the request it was handed as its message.\<close>

definition echoing :: agent where
  "echoing =
     \<lparr>firecrawl_extract = (\<lambda>urls params. Inl (ProviderError (concat urls @ prompt params)))\<rparr>"




section \<open>Well-formed records\<close>

text \<open>
  The keys the template reads, in the order it reads them. A record is renderable when
  it is a \<^verbatim>\<open>dict\<close> carrying all of them.
\<close>

definition expected_keys :: "string list" where
  "expected_keys =
     [''Building_name'', ''location_address'', ''Property_type'', ''Price'', ''Description'']"

fun is_dict :: "pyval \<Rightarrow> bool" where
  "is_dict (PDict f) = True"
| "is_dict v = False"

fun has_keys :: "string list \<Rightarrow> pyval \<Rightarrow> bool" where
  "has_keys ks (PDict f) = list_all (\<lambda>k. k \<in> set (map fst f)) ks"
| "has_keys ks v = False"

section \<open>Blocks and section headers\<close>






section \<open>Auxiliary facts\<close>

lemma find_properties_call:
  "find_properties lower nstr vstr self city max_price property_category property_type =
     (case firecrawl_extract self (property_urls (lower city))
             (property_params nstr city property_type property_category max_price) of
        Inl e \<Rightarrow> Inl e
      | Inr response \<Rightarrow> interpret_response vstr response)"
  by (simp add: find_properties_def Let_def)

lemma map_of_Some_key: "map_of d k = Some v \<Longrightarrow> k \<in> set (map fst d)"
  by (metis map_of_eq_None_iff option.distinct(1) set_map)

lemma interpret_response_properties:
  assumes "map_of d ''data'' = Some (PDict dd)"
    and "map_of dd ''properties'' = Some properties"
  shows "interpret_response vstr (PDict d) =
           (case py_iter properties of
              Inl e \<Rightarrow> Inl e
            | Inr props \<Rightarrow> format_loop vstr props [])"
proof -
  have "d \<noteq> []" using assms(1) by auto
  moreover have "''properties'' \<in> set (map fst dd)"
    using assms(2) by (rule map_of_Some_key)
  ultimately show ?thesis
    using assms by (simp add: interpret_response_def)
qed


lemma format_loop_error:
  "format_loop vstr props acc = Inl e \<Longrightarrow> \<exists>r \<in> set props. format_block vstr r = Inl e"
proof (induction props arbitrary: acc)
  case Nil
  then show ?case by simp
next
  case (Cons p ps)
  show ?case
  proof (cases "format_block vstr p")
    case (Inl e')
    with Cons.prems show ?thesis by simp
  next
    case (Inr b)
    with Cons.prems have "format_loop vstr ps (acc @ b) = Inl e" by simp
    then have "\<exists>r \<in> set ps. format_block vstr r = Inl e" by (rule Cons.IH)
    then show ?thesis by auto
  qed
qed

lemma format_loop_raises:
  "r \<in> set props \<Longrightarrow> format_block vstr r = Inl e \<Longrightarrow> \<exists>e'. format_loop vstr props acc = Inl e'"
proof (induction props arbitrary: acc)
  case Nil
  then show ?case by simp
next
  case (Cons p ps)
  show ?case
  proof (cases "format_block vstr p")
    case (Inl e')
    then show ?thesis by simp
  next
    case (Inr b)
    with Cons.prems have "r \<in> set ps" by auto
    then have "\<exists>e'. format_loop vstr ps (acc @ b) = Inl e'"
      using Cons.prems(2) by (rule Cons.IH)
    with Inr show ?thesis by simp
  qed
qed




lemma py_getitem_dict_cases:
  "(map_of f k = None \<and> py_getitem (PDict f) k = Inl (KeyError k)) \<or>
   (\<exists>v. map_of f k = Some v \<and> py_getitem (PDict f) k = Inr v)"
  by (cases "map_of f k") auto

lemma format_block_dict_error:
  assumes "format_block vstr (PDict f) = Inl e"
  shows "\<exists>k. k \<in> set expected_keys \<and> map_of f k = None \<and> e = KeyError k"
proof -
  let ?r = "PDict f"
  note ks = expected_keys_def
  from py_getitem_dict_cases[of f "''Building_name''"] show ?thesis
  proof (elim disjE conjE exE)
    assume "map_of f ''Building_name'' = None" "py_getitem ?r ''Building_name'' = Inl (KeyError ''Building_name'')"
    with assms show ?thesis by (intro exI[of _ "''Building_name''"]) (simp add: format_block_def ks)
  next
    fix b assume b: "py_getitem ?r ''Building_name'' = Inr b"
    from py_getitem_dict_cases[of f "''location_address''"] show ?thesis
    proof (elim disjE conjE exE)
      assume "map_of f ''location_address'' = None" "py_getitem ?r ''location_address'' = Inl (KeyError ''location_address'')"
      with assms b show ?thesis by (intro exI[of _ "''location_address''"]) (simp add: format_block_def ks)
    next
      fix l assume l: "py_getitem ?r ''location_address'' = Inr l"
      from py_getitem_dict_cases[of f "''Property_type''"] show ?thesis
      proof (elim disjE conjE exE)
        assume "map_of f ''Property_type'' = None" "py_getitem ?r ''Property_type'' = Inl (KeyError ''Property_type'')"
        with assms b l show ?thesis by (intro exI[of _ "''Property_type''"]) (simp add: format_block_def ks)
      next
        fix t assume t: "py_getitem ?r ''Property_type'' = Inr t"
        from py_getitem_dict_cases[of f "''Price''"] show ?thesis
        proof (elim disjE conjE exE)
          assume "map_of f ''Price'' = None" "py_getitem ?r ''Price'' = Inl (KeyError ''Price'')"
          with assms b l t show ?thesis by (intro exI[of _ "''Price''"]) (simp add: format_block_def ks)
        next
          fix p assume p: "py_getitem ?r ''Price'' = Inr p"
          from py_getitem_dict_cases[of f "''Description''"] show ?thesis
          proof (elim disjE conjE exE)
            assume "map_of f ''Description'' = None" "py_getitem ?r ''Description'' = Inl (KeyError ''Description'')"
            with assms b l t p show ?thesis by (intro exI[of _ "''Description''"]) (simp add: format_block_def ks)
          next
            fix d assume d: "py_getitem ?r ''Description'' = Inr d"
            with assms b l t p show ?thesis by (simp add: format_block_def)
          qed
        qed
      qed
    qed
  qed
qed



lemma format_block_missing:
  assumes "\<not> has_keys expected_keys (PDict f)"
  shows "\<exists>k. k \<in> set expected_keys \<and> format_block vstr (PDict f) = Inl (KeyError k)"
proof -
  from assms obtain k where k: "k \<in> set expected_keys" "k \<notin> set (map fst f)"
    by (auto simp: list_all_iff)
  then have none: "map_of f k = None" by (simp add: map_of_eq_None_iff)
  have "\<exists>e. format_block vstr (PDict f) = Inl e"
  proof (cases "format_block vstr (PDict f)")
    case (Inl e)
    then show ?thesis by blast
  next
    case (Inr s)
    have "\<exists>v. py_getitem (PDict f) k = Inr v"
      using k(1) Inr
      by (auto simp: expected_keys_def format_block_def split: sum.splits)
    with none show ?thesis by simp
  qed
  then obtain e where e: "format_block vstr (PDict f) = Inl e" ..
  from format_block_dict_error[OF e] e show ?thesis by blast
qed


lemma sublist_mid: "sublist xs (ps @ xs @ ss)"
  by (rule sublist_appendI)

lemma sublist_after: "sublist xs ys \<Longrightarrow> sublist xs (ps @ ys)"
  by (metis sublist_order.order.trans sublist_append_leftI)

lemma is_dict_PDict: "is_dict r \<Longrightarrow> \<exists>f. r = PDict f"
  by (cases r) simp_all














section \<open>Properties\<close>

text \<open>
  C1. Whenever the client returns a response that is falsy, or a \<^verbatim>\<open>dict\<close> whose \<^verbatim>\<open>"data"\<close>
  entry is absent (the default \<^verbatim>\<open>{}\<close> then stands in) or is a mapping without the key
  \<^verbatim>\<open>"properties"\<close>, \<^verbatim>\<open>find_properties\<close> returns normally, and what it returns is exactly the
  fixed no-data sentinel (the warning sign, spelled out here in its UTF-8 bytes, followed
  by the message), whatever else the response holds.
\<close>

theorem find_properties_no_data:
  assumes "firecrawl_extract self (property_urls (lower city))
             (property_params nstr city property_type property_category max_price) = Inr response"
    and "\<not> py_truthy response
         \<or> (\<exists>d. response = PDict d \<and> map_of d ''data'' = None)
         \<or> (\<exists>d dd. response = PDict d \<and> map_of d ''data'' = Some (PDict dd)
                \<and> ''properties'' \<notin> set (map fst dd))"
  shows "find_properties lower nstr vstr self city max_price property_category property_type =
           Inr ([CHR 0xE2, CHR 0x9A, CHR 0xA0, CHR 0xEF, CHR 0xB8, CHR 0x8F]
                @ '' No property data could be extracted. Try with a different city or parameters.'')"
proof -
  have "interpret_response vstr response = Inr no_data_sentinel"
    using assms(2)
  proof (elim disjE exE conjE)
    assume "\<not> py_truthy response"
    then show ?thesis by (simp add: interpret_response_def)
  next
    fix d assume "response = PDict d" "map_of d ''data'' = None"
    then show ?thesis by (simp add: interpret_response_def)
  next
    fix d dd
    assume "response = PDict d" "map_of d ''data'' = Some (PDict dd)"
      "''properties'' \<notin> set (map fst dd)"
    then show ?thesis by (simp add: interpret_response_def)
  qed
  with assms(1) show ?thesis
    by (simp add: find_properties_call no_data_sentinel_def)
qed

text \<open>
  The end-to-end scenario of a response \<^verbatim>\<open>{success: true, data: {}, ...}\<close>, and the
  response \<^verbatim>\<open>None\<close>.
\<close>

theorem find_properties_no_data_witness:
  "firecrawl_extract (answering (envelope (PDict []))) (property_urls (ascii_lower ''Mumbai''))
     (property_params (\<lambda>s. s) ''Mumbai'' ''Flat'' ''Residential'' ''2.5'')
     = Inr (envelope (PDict []))
   \<and> map_of [(''success'', PBool True), (''data'', PDict []),
              (''status'', PStr ''completed''), (''expiresAt'', PStr [])] ''data''
       = Some (PDict [])
   \<and> find_properties ascii_lower (\<lambda>s. s) (\<lambda>v. ''?'') (answering (envelope (PDict [])))
        ''Mumbai'' ''2.5'' ''Residential'' ''Flat'' =
       Inr ([CHR 0xE2, CHR 0x9A, CHR 0xA0, CHR 0xEF, CHR 0xB8, CHR 0x8F]
            @ '' No property data could be extracted. Try with a different city or parameters.'')
   \<and> \<not> py_truthy PNone
   \<and> find_properties ascii_lower (\<lambda>s. s) (\<lambda>v. ''?'') (answering PNone)
        ''Mumbai'' ''2.5'' ''Residential'' ''Flat'' =
       Inr ([CHR 0xE2, CHR 0x9A, CHR 0xA0, CHR 0xEF, CHR 0xB8, CHR 0x8F]
            @ '' No property data could be extracted. Try with a different city or parameters.'')"
proof -
  have h1: "firecrawl_extract (answering (envelope (PDict []))) (property_urls (ascii_lower ''Mumbai''))
     (property_params (\<lambda>s. s) ''Mumbai'' ''Flat'' ''Residential'' ''2.5'')
     = Inr (envelope (PDict []))"
    by (simp add: answering_def)
  have h2: "\<not> py_truthy (envelope (PDict []))
         \<or> (\<exists>d. envelope (PDict []) = PDict d \<and> map_of d ''data'' = None)
         \<or> (\<exists>d dd. envelope (PDict []) = PDict d \<and> map_of d ''data'' = Some (PDict dd)
                \<and> ''properties'' \<notin> set (map fst dd))"
    by (simp add: envelope_def)
  have h3: "firecrawl_extract (answering PNone) (property_urls (ascii_lower ''Mumbai''))
     (property_params (\<lambda>s. s) ''Mumbai'' ''Flat'' ''Residential'' ''2.5'') = Inr PNone"
    by (simp add: answering_def)
  have h4: "\<not> py_truthy PNone
         \<or> (\<exists>d. PNone = PDict d \<and> map_of d ''data'' = None)
         \<or> (\<exists>d dd. PNone = PDict d \<and> map_of d ''data'' = Some (PDict dd)
                \<and> ''properties'' \<notin> set (map fst dd))"
    by simp
  show ?thesis
    using h1 find_properties_no_data [where lower = ascii_lower and vstr = "\<lambda>v. ''?''", OF h1 h2]
      find_properties_no_data [where lower = ascii_lower and vstr = "\<lambda>v. ''?''", OF h3 h4]
    by simp
qed




text \<open>
  C3. Whenever the client returns at all, \<^verbatim>\<open>get_location_trends\<close> returns the fixed
  placeholder string, for every city and every response: nothing of the response
  reaches the result.
\<close>

theorem get_location_trends_placeholder:
  assumes "firecrawl_extract self (trend_urls lower city) trend_params = Inr raw_response"
  shows "get_location_trends lower self city = Inr ''Sample location trend analysis (mocked for now).''"
  using assms by (simp add: get_location_trends_def trend_placeholder_def)

text \<open>A run for the city Pune with a response that does carry trend data.\<close>

theorem get_location_trends_placeholder_witness:
  "firecrawl_extract (answering (envelope (PDict [(''locations'', PList [PInt 7])])))
     (trend_urls ascii_lower ''Pune'') trend_params
     = Inr (envelope (PDict [(''locations'', PList [PInt 7])]))
   \<and> get_location_trends ascii_lower (answering (envelope (PDict [(''locations'', PList [PInt 7])]))) ''Pune''
       = Inr ''Sample location trend analysis (mocked for now).''"
proof -
  have h: "firecrawl_extract (answering (envelope (PDict [(''locations'', PList [PInt 7])])))
     (trend_urls ascii_lower ''Pune'') trend_params
     = Inr (envelope (PDict [(''locations'', PList [PInt 7])]))"
    by (simp add: answering_def)
  show ?thesis using h get_location_trends_placeholder [OF h] by simp
qed

text \<open>
  C4. If the list under \<^verbatim>\<open>"properties"\<close> contains a record (a \<^verbatim>\<open>dict\<close>) that lacks one of
  the five keys the formatter reads, \<^verbatim>\<open>find_properties\<close> raises: it returns neither a
  formatted string nor the sentinel. When every element of the list is a \<^verbatim>\<open>dict\<close>, the
  exception is the \<^verbatim>\<open>KeyError\<close> of one of the five keys, handed to the caller as it is.
\<close>

theorem find_properties_missing_key:
  assumes "firecrawl_extract self (property_urls (lower city))
             (property_params nstr city property_type property_category max_price) = Inr (PDict d)"
    and "map_of d ''data'' = Some (PDict dd)"
    and "map_of dd ''properties'' = Some (PList recs)"
    and "r \<in> set recs" and "is_dict r" and "\<not> has_keys expected_keys r"
  shows "\<exists>e. find_properties lower nstr vstr self city max_price property_category property_type = Inl e
             \<and> (list_all is_dict recs \<longrightarrow> (\<exists>k. k \<in> set expected_keys \<and> e = KeyError k))"
proof -
  from assms(5) obtain f where f: "r = PDict f" using is_dict_PDict by blast
  from format_block_missing [of f vstr] assms(6) f
  obtain k where "format_block vstr r = Inl (KeyError k)" by blast
  from format_loop_raises [OF assms(4) this, of "[]"]
  obtain e where e: "format_loop vstr recs [] = Inl e" ..
  have "interpret_response vstr (PDict d) = format_loop vstr recs []"
    using interpret_response_properties [OF assms(2) assms(3)] by simp
  with e assms(1)
  have res: "find_properties lower nstr vstr self city max_price property_category property_type = Inl e"
    by (simp add: find_properties_call)
  have "\<exists>k. k \<in> set expected_keys \<and> e = KeyError k" if dicts: "list_all is_dict recs"
  proof -
    from format_loop_error [OF e] obtain r' where r': "r' \<in> set recs" "format_block vstr r' = Inl e"
      by blast
    from dicts r'(1) have "is_dict r'" by (simp add: list_all_iff)
    then obtain f' where "r' = PDict f'" using is_dict_PDict by blast
    with r'(2) format_block_dict_error [of vstr f' e] show ?thesis by blast
  qed
  with res show ?thesis by blast
qed

text \<open>
  A well-formed record followed by one under the unaliased field names: the first
  subscript of the second record raises.
\<close>

theorem find_properties_missing_key_witness:
  "unaliased \<in> set [skyline, unaliased] \<and> is_dict unaliased
   \<and> \<not> has_keys expected_keys unaliased \<and> list_all is_dict [skyline, unaliased]
   \<and> find_properties ascii_lower (\<lambda>s. s) (\<lambda>v. ''?'')
        (answering (envelope (PDict [(''properties'', PList [skyline, unaliased])])))
        ''Mumbai'' ''2.5'' ''Residential'' ''Flat'' = Inl (KeyError ''Building_name'')"
proof -
  let ?payload = "PDict [(''properties'', PList [skyline, unaliased])]"
  have h1: "firecrawl_extract (answering (envelope ?payload))
     (property_urls (ascii_lower ''Mumbai''))
     (property_params (\<lambda>s. s) ''Mumbai'' ''Flat'' ''Residential'' ''2.5'')
     = Inr (PDict [(''success'', PBool True), (''data'', ?payload),
            (''status'', PStr ''completed''), (''expiresAt'', PStr [])])"
    by (simp add: answering_def envelope_def)
  have h2: "map_of [(''success'', PBool True), (''data'', ?payload),
            (''status'', PStr ''completed''), (''expiresAt'', PStr [])] ''data''
            = Some ?payload"
    by simp
  have h3: "map_of [(''properties'', PList [skyline, unaliased])] ''properties''
              = Some (PList [skyline, unaliased])"
    by simp
  have h4: "unaliased \<in> set [skyline, unaliased]" by simp
  have h5: "is_dict unaliased" by (simp add: unaliased_def)
  have h6: "\<not> has_keys expected_keys unaliased"
    by (simp add: unaliased_def expected_keys_def)
  have h7: "list_all is_dict [skyline, unaliased]"
    by (simp add: unaliased_def skyline_def)
  have run: "find_properties ascii_lower (\<lambda>s. s) (\<lambda>v. ''?'') (answering (envelope ?payload))
        ''Mumbai'' ''2.5'' ''Residential'' ''Flat'' = Inl (KeyError ''Building_name'')"
    by (simp add: find_properties_def answering_def envelope_def interpret_response_def
        format_block_def skyline_def unaliased_def)
  show ?thesis
    using h4 h5 h6 h7 run find_properties_missing_key [where lower = ascii_lower and vstr = "\<lambda>v. ''?''", OF h1 h2 h3 h4 h5 h6]
    by simp
qed

text \<open>
  C5 as stated asks for a wildcard suffix on each of the three URLs. For the city Mumbai
  the third URL, the one of housing.com, is
  \<^verbatim>\<open>https://housing.com/in/buy/mumbai/mumbai\<close> and carries none.
\<close>

theorem wildcard_on_every_url_counterexample:
  "property_urls (ascii_lower ''Mumbai'') ! 2 = ''https://housing.com/in/buy/mumbai/mumbai''
   \<and> \<not> list_all (suffix ''/*'') (property_urls (ascii_lower ''Mumbai''))"
  by code_simp

text \<open>
  C5, amended. For every city \<^verbatim>\<open>find_properties\<close> hands the client exactly three URLs,
  each a fixed template with the lowercased city substituted: the squareyards and
  99acres URLs end with the wildcard suffix \<^verbatim>\<open>/*\<close>, the housing.com URL names the city
  twice and ends with the lowercased city, no wildcard being appended.
\<close>

theorem find_properties_urls:
  "find_properties lower nstr vstr self city max_price property_category property_type =
     (case firecrawl_extract self
             [''https://www.squareyards.com/sale/property-for-sale-in-'' @ lower city @ ''/*'',
              ''https://www.99acres.com/property-in-'' @ lower city @ ''-ffid/*'',
              ''https://housing.com/in/buy/'' @ lower city @ ''/'' @ lower city]
             (property_params nstr city property_type property_category max_price) of
        Inl e \<Rightarrow> Inl e
      | Inr response \<Rightarrow> interpret_response vstr response)
   \<and> length (property_urls (lower city)) = 3
   \<and> suffix ''/*'' (property_urls (lower city) ! 0)
   \<and> suffix ''/*'' (property_urls (lower city) ! 1)
   \<and> suffix (''/'' @ lower city) (property_urls (lower city) ! 2)"
proof -
  have "suffix ''/*'' (''https://www.squareyards.com/sale/property-for-sale-in-'' @ lower city @ ''/*'')"
    by (simp only: append_assoc [symmetric] suffixI)
  moreover have "suffix ''/*'' (''https://www.99acres.com/property-in-'' @ lower city @ ''-ffid/*'')"
  proof -
    have "''https://www.99acres.com/property-in-'' @ lower city @ ''-ffid/*''
          = (''https://www.99acres.com/property-in-'' @ lower city @ ''-ffid'') @ ''/*''"
      by simp
    then show ?thesis by (rule suffixI)
  qed
  moreover have "suffix (''/'' @ lower city)
       (''https://housing.com/in/buy/'' @ lower city @ ''/'' @ lower city)"
    by (simp only: append_assoc [symmetric] suffixI)
  ultimately show ?thesis
    by (simp add: find_properties_call property_urls_def)
qed

text \<open>
  C6. The URL list depends on the city through its lowercased token only: when two
  cities have the same token, the call for the second hands the client the very list
  built from the first, three URLs long, whatever the other arguments are.
\<close>

theorem urls_function_of_token:
  assumes "lower city1 = lower city2"
  shows "find_properties lower nstr vstr self city2 max_price property_category property_type =
           (case firecrawl_extract self (property_urls (lower city1))
                   (property_params nstr city2 property_type property_category max_price) of
              Inl e \<Rightarrow> Inl e
            | Inr response \<Rightarrow> interpret_response vstr response)
         \<and> property_urls (lower city1) = property_urls (lower city2)
         \<and> length (property_urls (lower city1)) = 3"
  using assms by (simp add: find_properties_call property_urls_def)

text \<open>Mumbai and MUMBAI share the token, hence the three URLs.\<close>

theorem urls_function_of_token_witness:
  "ascii_lower ''Mumbai'' = ascii_lower ''MUMBAI''
   \<and> property_urls (ascii_lower ''MUMBAI'') =
       [''https://www.squareyards.com/sale/property-for-sale-in-mumbai/*'',
        ''https://www.99acres.com/property-in-mumbai-ffid/*'',
        ''https://housing.com/in/buy/mumbai/mumbai'']
   \<and> find_properties ascii_lower (\<lambda>s. s) (\<lambda>v. ''?'') (raising ''timeout'')
        ''MUMBAI'' ''2.5'' ''Residential'' ''Flat'' = Inl (ProviderError ''timeout'')"
proof -
  have h: "ascii_lower ''Mumbai'' = ascii_lower ''MUMBAI''" by code_simp
  have u: "property_urls (ascii_lower ''Mumbai'') =
       [''https://www.squareyards.com/sale/property-for-sale-in-mumbai/*'',
        ''https://www.99acres.com/property-in-mumbai-ffid/*'',
        ''https://housing.com/in/buy/mumbai/mumbai'']" by code_simp
  show ?thesis
    using h u
      urls_function_of_token [where lower = ascii_lower and nstr = "\<lambda>s. s"
        and vstr = "\<lambda>v. ''?''" and self = "raising ''timeout''" and max_price = "''2.5''"
        and property_category = "''Residential''" and property_type = "''Flat''", OF h]
    by (simp add: raising_def)
qed

text \<open>
  C7. The instruction string handed to the client under \<^verbatim>\<open>"prompt"\<close> contains the city
  as given (not the lowercased token), the property type, the property category and the
  rendering of the maximum price, each as a substring.
\<close>

theorem prompt_embeds_inputs:
  "find_properties lower nstr vstr self city max_price property_category property_type =
     (case firecrawl_extract self (property_urls (lower city))
             \<lparr>prompt = property_prompt nstr city property_type property_category max_price,
              schema = PropertiesResponse\<rparr> of
        Inl e \<Rightarrow> Inl e
      | Inr response \<Rightarrow> interpret_response vstr response)
   \<and> sublist city (property_prompt nstr city property_type property_category max_price)
   \<and> sublist property_type (property_prompt nstr city property_type property_category max_price)
   \<and> sublist property_category
        (property_prompt nstr city property_type property_category max_price)
   \<and> sublist (nstr max_price)
        (property_prompt nstr city property_type property_category max_price)"
proof -
  have "sublist city (property_prompt nstr city property_type property_category max_price)"
    unfolding property_prompt_def by (intro sublist_after sublist_mid)
  moreover
  have "sublist property_type (property_prompt nstr city property_type property_category max_price)"
    unfolding property_prompt_def by (intro sublist_after sublist_mid)
  moreover
  have "sublist property_category
          (property_prompt nstr city property_type property_category max_price)"
    unfolding property_prompt_def by (intro sublist_after sublist_mid)
  moreover
  have "sublist (nstr max_price)
          (property_prompt nstr city property_type property_category max_price)"
    unfolding property_prompt_def by (intro sublist_after sublist_mid)
  ultimately show ?thesis
    by (simp add: find_properties_call property_params_def)
qed

text \<open>
  C8. Building the request cannot fail and checks nothing. For every city and every
  maximum price (the type of the number is open) the client is called, with exactly the
  three URLs built from the lowercased city and the prompt that embeds the inputs as
  they are, and the outcome of \<^verbatim>\<open>find_properties\<close> is the client's exception or the
  interpretation of its response. For the empty city and the price -1 the provider is
  handed the degenerate URLs and the rendering of -1. A raising client's exception
  comes back as it is, and a client answering \<^verbatim>\<open>None\<close> leads to a normal return.
\<close>

theorem request_building_total:
  "find_properties lower nstr vstr self city max_price property_category property_type =
     (case firecrawl_extract self
             [''https://www.squareyards.com/sale/property-for-sale-in-'' @ lower city @ ''/*'',
              ''https://www.99acres.com/property-in-'' @ lower city @ ''-ffid/*'',
              ''https://housing.com/in/buy/'' @ lower city @ ''/'' @ lower city]
             \<lparr>prompt =
                nl @ indent @ ''Extract property listings for '' @ city
                @ '' where property type is '' @ property_type
                @ '' and category is '' @ property_category @ ''.''
                @ nl @ indent @ ''Only include properties under '' @ nstr max_price
                @ '' Crores.''
                @ nl @ indent
                @ ''Each property must include name, address, price, description, and type.''
                @ nl @ indent,
              schema = PropertiesResponse\<rparr> of
        Inl e \<Rightarrow> Inl e
      | Inr response \<Rightarrow> interpret_response vstr response)
   \<and> find_properties ascii_lower istr vstr echoing [] (- 1 :: int) property_category property_type =
       Inl (ProviderError
             (''https://www.squareyards.com/sale/property-for-sale-in-/*''
              @ ''https://www.99acres.com/property-in--ffid/*''
              @ ''https://housing.com/in/buy//''
              @ nl @ indent @ ''Extract property listings for ''
              @ '' where property type is '' @ property_type
              @ '' and category is '' @ property_category @ ''.''
              @ nl @ indent @ ''Only include properties under '' @ istr (- 1)
              @ '' Crores.''
              @ nl @ indent
              @ ''Each property must include name, address, price, description, and type.''
              @ nl @ indent))
   \<and> find_properties lower nstr vstr (raising msg) city max_price property_category property_type
       = Inl (ProviderError msg)
   \<and> find_properties lower nstr vstr (answering PNone) city max_price property_category property_type
       = Inr no_data_sentinel"
proof -
  have call: "find_properties lower nstr vstr self city max_price property_category property_type =
     (case firecrawl_extract self
             [''https://www.squareyards.com/sale/property-for-sale-in-'' @ lower city @ ''/*'',
              ''https://www.99acres.com/property-in-'' @ lower city @ ''-ffid/*'',
              ''https://housing.com/in/buy/'' @ lower city @ ''/'' @ lower city]
             \<lparr>prompt =
                nl @ indent @ ''Extract property listings for '' @ city
                @ '' where property type is '' @ property_type
                @ '' and category is '' @ property_category @ ''.''
                @ nl @ indent @ ''Only include properties under '' @ nstr max_price
                @ '' Crores.''
                @ nl @ indent
                @ ''Each property must include name, address, price, description, and type.''
                @ nl @ indent,
              schema = PropertiesResponse\<rparr> of
        Inl e \<Rightarrow> Inl e
      | Inr response \<Rightarrow> interpret_response vstr response)"
    by (simp only: find_properties_call property_urls_def property_params_def property_prompt_def)
  have echo: "find_properties ascii_lower istr vstr echoing [] (- 1 :: int) property_category property_type =
       Inl (ProviderError
             (''https://www.squareyards.com/sale/property-for-sale-in-/*''
              @ ''https://www.99acres.com/property-in--ffid/*''
              @ ''https://housing.com/in/buy//''
              @ nl @ indent @ ''Extract property listings for ''
              @ '' where property type is '' @ property_type
              @ '' and category is '' @ property_category @ ''.''
              @ nl @ indent @ ''Only include properties under '' @ istr (- 1)
              @ '' Crores.''
              @ nl @ indent
              @ ''Each property must include name, address, price, description, and type.''
              @ nl @ indent))"
    by (simp add: find_properties_call property_urls_def property_params_def property_prompt_def
        echoing_def ascii_lower_def)
  have "find_properties lower nstr vstr (raising msg) city max_price property_category property_type
       = Inl (ProviderError msg)"
    by (simp add: find_properties_call raising_def)
  moreover
  have "find_properties lower nstr vstr (answering PNone) city max_price property_category property_type
       = Inr no_data_sentinel"
    by (simp add: find_properties_call answering_def interpret_response_def)
  ultimately show ?thesis using call echo by blast
qed

text \<open>
  C10. A response whose payload maps \<^verbatim>\<open>"properties"\<close> to the empty list yields the empty
  string, which is not the no-data sentinel: the sentinel is kept for a falsy response
  and for a payload without the key.
\<close>

theorem find_properties_empty_list:
  assumes "firecrawl_extract self (property_urls (lower city))
             (property_params nstr city property_type property_category max_price) = Inr (PDict d)"
    and "map_of d ''data'' = Some (PDict dd)"
    and "map_of dd ''properties'' = Some (PList [])"
  shows "find_properties lower nstr vstr self city max_price property_category property_type = Inr []
         \<and> find_properties lower nstr vstr self city max_price property_category property_type
             \<noteq> Inr no_data_sentinel"
proof -
  have "interpret_response vstr (PDict d) = Inr []"
    using interpret_response_properties [OF assms(2) assms(3)] by simp
  with assms(1)
  have "find_properties lower nstr vstr self city max_price property_category property_type = Inr []"
    by (simp add: find_properties_call)
  then show ?thesis by (simp add: no_data_sentinel_def)
qed

text \<open>A run with the payload \<^verbatim>\<open>{"properties": []}\<close>.\<close>

theorem find_properties_empty_list_witness:
  "firecrawl_extract (answering (envelope (PDict [(''properties'', PList [])])))
     (property_urls (ascii_lower ''Mumbai''))
     (property_params (\<lambda>s. s) ''Mumbai'' ''Flat'' ''Residential'' ''2.5'')
     = Inr (envelope (PDict [(''properties'', PList [])]))
   \<and> find_properties ascii_lower (\<lambda>s. s) (\<lambda>v. ''?'') (answering (envelope (PDict [(''properties'', PList [])])))
        ''Mumbai'' ''2.5'' ''Residential'' ''Flat'' = Inr []"
proof -
  have h1: "firecrawl_extract (answering (envelope (PDict [(''properties'', PList [])])))
     (property_urls (ascii_lower ''Mumbai''))
     (property_params (\<lambda>s. s) ''Mumbai'' ''Flat'' ''Residential'' ''2.5'')
     = Inr (PDict [(''success'', PBool True), (''data'', PDict [(''properties'', PList [])]),
            (''status'', PStr ''completed''), (''expiresAt'', PStr [])])"
    by (simp add: answering_def envelope_def)
  have h2: "map_of [(''success'', PBool True), (''data'', PDict [(''properties'', PList [])]),
            (''status'', PStr ''completed''), (''expiresAt'', PStr [])] ''data''
            = Some (PDict [(''properties'', PList [])])"
    by simp
  have h3: "map_of [(''properties'', PList [])] ''properties'' = Some (PList [])"
    by simp
  show ?thesis
    using h1 find_properties_empty_list [where lower = ascii_lower and vstr = "\<lambda>v. ''?''", OF h1 h2 h3]
    by (simp add: envelope_def)
qed

end
